theory Spec2Isabelle
  imports Complex_Main
begin

section \<open>JavaScript numbers\<close>

text \<open>
  The TypeScript type \<open>number\<close> is the IEEE 754 binary64 format. A value is \<open>NaN\<close>, an
  infinity with its sign (\<open>True\<close> is negative), or a finite number with its sign, its
  mantissa \<open>m\<close> and its exponent \<open>e\<close>, of magnitude \<open>m * 2 ^ e\<close>. The finite doubles
  are the values with \<open>m < 2 ^ 53\<close> and \<open>- 1074 \<le> e \<le> 971\<close> where \<open>2 ^ 52 \<le> m\<close>
  (normal) or \<open>e = - 1074\<close> (subnormal, and the two zeros \<open>Finite s 0 (- 1074)\<close>):
  the predicate \<open>isDouble\<close>. Each of \<open>+\<close>, \<open>-\<close>, \<open>*\<close> and \<open>Math.sqrt\<close> below returns such a
  value, whatever its operands (\<open>isDouble_js_add\<close> and the lemmas beside it).
\<close>

datatype number = NaN | Infinity bool | Finite bool nat int

fun isDouble :: "number \<Rightarrow> bool" where
  "isDouble (Finite s m e) =
     (m < 2 ^ 53 \<and> - 1074 \<le> e \<and> e \<le> 971 \<and> (2 ^ 52 \<le> m \<or> e = - 1074))"
| "isDouble a = True"

text \<open>The number of binary digits of a natural number.\<close>

fun bitlen :: "nat \<Rightarrow> nat" where
  "bitlen n = (if n = 0 then 0 else Suc (bitlen (n div 2)))"

declare bitlen.simps [simp del]

text \<open>
  \<open>m div 2 ^ shift\<close> rounded to nearest, a tie going to the even quotient: the rounding
  mode of every arithmetic operation of JavaScript.
\<close>

definition roundEven :: "nat \<Rightarrow> nat \<Rightarrow> nat" where
  "roundEven m shift =
     (let q = m div 2 ^ shift;
          r = m mod 2 ^ shift
      in if 2 ^ shift < 2 * r \<or> (2 * r = 2 ^ shift \<and> odd q) then q + 1 else q)"

text \<open>
  The double nearest to the exact magnitude \<open>m * 2 ^ e\<close>, under the sign \<open>s\<close>. The unit in
  the last place of the result is \<open>2 ^ ulp\<close>: 53 digits are kept, fewer below the
  smallest normal number (gradual underflow, down to zero), and a result beyond the
  largest finite double is an infinity (overflow).
\<close>

definition rounded :: "bool \<Rightarrow> nat \<Rightarrow> int \<Rightarrow> number" where
  "rounded s m e =
     (if m = 0 then Finite s 0 (- 1074)
      else
        let ulp = max (e + int (bitlen m) - 53) (- 1074);
            q = (if ulp \<le> e then m * 2 ^ nat (e - ulp) else roundEven m (nat (ulp - e)));
            q' = (if q = 2 ^ 53 then 2 ^ 52 else q);
            e' = (if q = 2 ^ 53 then ulp + 1 else ulp)
        in if 971 < e' then Infinity s else Finite s q' e')"

text \<open>A numeric literal with an integer value, such as the \<open>0\<close> of \<open>detectPose\<close>.\<close>

definition fromInt :: "int \<Rightarrow> number" where
  "fromInt i = rounded (i < 0) (nat \<bar>i\<bar>) 0"

text \<open>Unary minus.\<close>

fun js_neg :: "number \<Rightarrow> number" where
  "js_neg NaN = NaN"
| "js_neg (Infinity s) = Infinity (\<not> s)"
| "js_neg (Finite s m e) = Finite (\<not> s) m e"

definition signed :: "bool \<Rightarrow> nat \<Rightarrow> int" where
  "signed s m = (if s then - int m else int m)"

text \<open>
  The operator \<open>+\<close> on numbers. Two finite operands are added exactly, over their
  smaller exponent, and the sum is rounded; an exact zero sum of non-zero operands is
  \<open>+0\<close>, and a sum of two zeros is \<open>-0\<close> only when both are.
\<close>

fun js_add :: "number \<Rightarrow> number \<Rightarrow> number" where
  "js_add NaN b = NaN"
| "js_add a NaN = NaN"
| "js_add (Infinity s) (Infinity t) = (if s = t then Infinity s else NaN)"
| "js_add (Infinity s) (Finite t n f) = Infinity s"
| "js_add (Finite s m e) (Infinity t) = Infinity t"
| "js_add (Finite s m e) (Finite t n f) =
     (if m = 0 \<and> n = 0 then Finite (s \<and> t) 0 (- 1074)
      else if m = 0 then rounded t n f
      else if n = 0 then rounded s m e
      else
        let g = min e f;
            v = signed s m * 2 ^ nat (e - g) + signed t n * 2 ^ nat (f - g)
        in if v = 0 then Finite False 0 (- 1074) else rounded (v < 0) (nat \<bar>v\<bar>) g)"

text \<open>The operator \<open>-\<close>: \<open>a - b\<close> is \<open>a + (- b)\<close> in IEEE 754 arithmetic.\<close>

definition js_sub :: "number \<Rightarrow> number \<Rightarrow> number" where
  "js_sub a b = js_add a (js_neg b)"

text \<open>The operator \<open>*\<close>: the exact product, rounded; an infinity times a zero is \<open>NaN\<close>.\<close>

fun js_mul :: "number \<Rightarrow> number \<Rightarrow> number" where
  "js_mul NaN b = NaN"
| "js_mul a NaN = NaN"
| "js_mul (Infinity s) (Infinity t) = Infinity (s \<noteq> t)"
| "js_mul (Infinity s) (Finite t n f) = (if n = 0 then NaN else Infinity (s \<noteq> t))"
| "js_mul (Finite s m e) (Infinity t) = (if m = 0 then NaN else Infinity (s \<noteq> t))"
| "js_mul (Finite s m e) (Finite t n f) = rounded (s \<noteq> t) (m * n) (e + f)"

text \<open>
  The integer square root, digit by digit from the highest: \<open>isqrt_from k n r\<close> decides
  the \<open>k\<close> low digits of the root of \<open>n\<close> above the digits fixed in \<open>r\<close>.
\<close>

fun isqrt_from :: "nat \<Rightarrow> nat \<Rightarrow> nat \<Rightarrow> nat" where
  "isqrt_from 0 n r = r"
| "isqrt_from (Suc k) n r =
     isqrt_from k n (if (r + 2 ^ k) * (r + 2 ^ k) \<le> n then r + 2 ^ k else r)"

definition isqrt :: "nat \<Rightarrow> nat" where
  "isqrt n = isqrt_from (bitlen n) n 0"

text \<open>
  \<open>Math.sqrt\<close>, correctly rounded as IEEE 754 requires of the square root and as the
  JavaScript engines compute it. The mantissa is scaled to at least 110 digits over an
  even exponent, so that its integer root \<open>r\<close> has more than 54 digits; one more digit
  below \<open>r\<close> records whether the root is inexact, and the whole is rounded once.
\<close>

definition sqrtRounded :: "nat \<Rightarrow> nat \<Rightarrow> int \<Rightarrow> number" where
  "sqrtRounded n r h = rounded False (2 * r + (if r * r = n then 0 else 1)) h"

fun js_sqrt :: "number \<Rightarrow> number" where
  "js_sqrt NaN = NaN"
| "js_sqrt (Infinity s) = (if s then NaN else Infinity False)"
| "js_sqrt (Finite s m e) =
     (if m = 0 then Finite s 0 (- 1074)
      else if s then NaN
      else sqrtRounded (m * 2 ^ nat (110 + e mod 2)) (isqrt (m * 2 ^ nat (110 + e mod 2)))
             ((e - (110 + e mod 2)) div 2 - 1))"

text \<open>
  The comparisons the claims are about: \<open>v >= 0\<close>, which is false of \<open>NaN\<close> and true of
  both zeros, and \<open>a === b\<close> on numbers, which is false when either side is \<open>NaN\<close> and does
  not tell the two zeros apart. \<open>Number.isFinite\<close> holds of the finite numbers.
\<close>

fun nonNegative :: "number \<Rightarrow> bool" where
  "nonNegative NaN = False"
| "nonNegative (Infinity s) = (\<not> s)"
| "nonNegative (Finite s m e) = (\<not> s \<or> m = 0)"

fun strictEquals :: "number \<Rightarrow> number \<Rightarrow> bool" where
  "strictEquals NaN b = False"
| "strictEquals a NaN = False"
| "strictEquals (Finite s m e) (Finite t n f) = ((m = 0 \<and> n = 0) \<or> (s = t \<and> m = n \<and> e = f))"
| "strictEquals (Infinity s) (Infinity t) = (s = t)"
| "strictEquals (Infinity s) (Finite t n f) = False"
| "strictEquals (Finite s m e) (Infinity t) = False"

fun isFinite :: "number \<Rightarrow> bool" where
  "isFinite (Finite s m e) = True"
| "isFinite a = False"


section \<open>Data model of \<open>src/bodyMeasurement.ts\<close>\<close>

text \<open>The interface \<open>Measurements\<close> (lines 6-10).\<close>

record Measurements =
  shoulderWidth :: number
  hipWidth :: number
  height :: number

text \<open>
  The interface \<open>ErrorResult\<close> (lines 13-16). Its field \<open>success\<close> has the literal type
  \<open>false\<close>; the model keeps it as a boolean field, so that the value the code stores in
  it is something to prove.
\<close>

record ErrorResult =
  success :: bool
  message :: string

text \<open>The union type \<open>PoseResult = Measurements | ErrorResult\<close> (line 19).\<close>

datatype PoseResult = MeasurementsR Measurements | ErrorR ErrorResult

text \<open>
  The types of the PoseNet library that \<open>detectPose\<close> reads: a pose carries a list of
  keypoints (a JavaScript array, so order and duplicates are kept), each with a part
  name, a position and a score. The code reads \<open>part\<close> and \<open>position\<close> only.
\<close>

record Vector2D =
  x :: number
  y :: number

record Keypoint =
  part :: string
  position :: Vector2D
  score :: number

record Pose =
  keypoints :: "Keypoint list"
  poseScore :: number

text \<open>
  A value thrown inside the \<open>try\<close> block: a rejected promise of the estimator, or any
  other runtime error. The \<open>catch\<close> clause does not inspect it.
\<close>

datatype js_error = Thrown

text \<open>
  The model handle \<open>net\<close>. Its method \<open>estimateSinglePose\<close> takes the video element and the
  option \<open>flipHorizontal\<close>; awaiting it either throws (\<open>Inl\<close>) or yields a value that is
  falsy (\<open>None\<close>: \<open>null\<close> or \<open>undefined\<close>) or a pose object (\<open>Some\<close>, always truthy).
\<close>

record 'video PoseNet =
  estimateSinglePose :: "'video \<Rightarrow> bool \<Rightarrow> js_error + Pose option"

section \<open>The measurement pipeline\<close>

text \<open>\<open>calculateDistance\<close> (lines 64-71).\<close>

definition calculateDistance :: "Vector2D \<Rightarrow> Vector2D \<Rightarrow> number" where
  "calculateDistance point1 point2 =
     (let dx = js_sub (x point1) (x point2);
          dy = js_sub (y point1) (y point2)
      in js_sqrt (js_add (js_mul dx dx) (js_mul dy dy)))"

text \<open>
  The body of the \<open>try\<close> block of \<open>detectPose\<close> (lines 81-127).
  \<open>Array.prototype.find\<close> returns the first element of the array that satisfies the
  predicate, or \<open>undefined\<close> when there is none, which is what \<^const>\<open>find\<close> does with
  \<open>None\<close> for \<open>undefined\<close>. In the condition \<open>a && b\<close> of each ternary, a keypoint
  object is truthy and \<open>undefined\<close> is falsy.
\<close>

definition detectPose_try :: "'video \<Rightarrow> 'video PoseNet \<Rightarrow> js_error + PoseResult" where
  "detectPose_try video net =
     (case estimateSinglePose net video False of
        Inl e \<Rightarrow> Inl e
      | Inr None \<Rightarrow>
          Inr (ErrorR \<lparr>success = False,
                       message = ''Pose estimation failed. Could not detect key points.''\<rparr>)
      | Inr (Some pose) \<Rightarrow>
          (let leftShoulder = find (\<lambda>k. part k = ''leftShoulder'') (keypoints pose);
               rightShoulder = find (\<lambda>k. part k = ''rightShoulder'') (keypoints pose);
               shoulderWidth =
                 (case leftShoulder of
                    None \<Rightarrow> fromInt 0
                  | Some l \<Rightarrow>
                      (case rightShoulder of
                         None \<Rightarrow> fromInt 0
                       | Some r \<Rightarrow> calculateDistance (position l) (position r)));
               leftHip = find (\<lambda>k. part k = ''leftHip'') (keypoints pose);
               rightHip = find (\<lambda>k. part k = ''rightHip'') (keypoints pose);
               hipWidth =
                 (case leftHip of
                    None \<Rightarrow> fromInt 0
                  | Some l \<Rightarrow>
                      (case rightHip of
                         None \<Rightarrow> fromInt 0
                       | Some r \<Rightarrow> calculateDistance (position l) (position r)));
               head = find (\<lambda>k. part k = ''nose'') (keypoints pose);
               leftAnkle = find (\<lambda>k. part k = ''leftAnkle'') (keypoints pose);
               height =
                 (case head of
                    None \<Rightarrow> fromInt 0
                  | Some h \<Rightarrow>
                      (case leftAnkle of
                         None \<Rightarrow> fromInt 0
                       | Some l \<Rightarrow> calculateDistance (position h) (position l)))
           in Inr (MeasurementsR \<lparr>shoulderWidth = shoulderWidth, hipWidth = hipWidth,
                                    height = height\<rparr>)))"

text \<open>
  \<open>detectPose\<close> (lines 76-135): the \<open>try\<close> block under its \<open>catch\<close> clause. The result is
  what the returned promise settles to: \<open>Inl\<close> a rejection, \<open>Inr\<close> the resolved value.
\<close>

definition detectPose :: "'video \<Rightarrow> 'video PoseNet \<Rightarrow> js_error + PoseResult" where
  "detectPose video net =
     (case detectPose_try video net of
        Inl error \<Rightarrow>
          Inr (ErrorR \<lparr>success = False,
                       message = ''An error occurred during pose detection. Please try again.''\<rparr>)
      | Inr result \<Rightarrow> Inr result)"

text \<open>
  The caller's test for the error variant, as the README writes it for every result:
  \<open>'success' in poseResult && !poseResult.success\<close>. A \<open>Measurements\<close> object has no
  property \<open>success\<close>.
\<close>

definition isError :: "PoseResult \<Rightarrow> bool" where
  "isError r = (case r of MeasurementsR m \<Rightarrow> False | ErrorR e \<Rightarrow> \<not> success e)"

section \<open>Auxiliary definitions for the proofs and the examples\<close>

text \<open>
  The value of one ternary of \<open>detectPose\<close>, as a function of the two part names and the
  keypoint array. It is not a function of the source: \<open>detectPose_pose\<close> below shows that
  the three components of the returned record are its values.
\<close>

definition lookupDistance :: "string \<Rightarrow> string \<Rightarrow> Keypoint list \<Rightarrow> number" where
  "lookupDistance n1 n2 kps =
     (case find (\<lambda>k. part k = n1) kps of
        None \<Rightarrow> fromInt 0
      | Some a \<Rightarrow>
          (case find (\<lambda>k. part k = n2) kps of
             None \<Rightarrow> fromInt 0
           | Some b \<Rightarrow> calculateDistance (position a) (position b)))"

text \<open>A keypoint at a position with integer coordinates, with score 1.\<close>

definition kp :: "string \<Rightarrow> int \<Rightarrow> int \<Rightarrow> Keypoint" where
  "kp n px py =
     \<lparr>part = n, position = \<lparr>x = fromInt px, y = fromInt py\<rparr>, score = fromInt 1\<rparr>"

text \<open>An estimator that resolves to a pose with the given keypoints, whatever the video.\<close>

definition netOf :: "Keypoint list \<Rightarrow> unit PoseNet" where
  "netOf kps = \<lparr>estimateSinglePose = (\<lambda>video flip. Inr (Some \<lparr>keypoints = kps, poseScore = fromInt 1\<rparr>))\<rparr>"

text \<open>An estimator that resolves to no pose, and one that throws.\<close>

definition netNoPose :: "unit PoseNet" where
  "netNoPose = \<lparr>estimateSinglePose = (\<lambda>video flip. Inr None)\<rparr>"

definition netThrows :: "unit PoseNet" where
  "netThrows = \<lparr>estimateSinglePose = (\<lambda>video flip. Inl Thrown)\<rparr>"

text \<open>The keypoints of Example 1 and of Example 2 of the specification.\<close>

definition example1 :: "Keypoint list" where
  "example1 =
     [kp ''leftShoulder'' 0 0, kp ''rightShoulder'' 300 0, kp ''leftHip'' 50 200,
      kp ''rightHip'' 300 200, kp ''nose'' 150 0, kp ''leftAnkle'' 150 600]"

definition example2 :: "Keypoint list" where
  "example2 = [kp ''nose'' 150 0, kp ''leftAnkle'' 150 600]"

text \<open>
  Example 1 with a second \<open>leftShoulder\<close> entry after the first one, and an estimator
  on another kind of video handle that resolves to the keypoints of Example 1 under
  another pose score.
\<close>

definition example1_duplicate :: "Keypoint list" where
  "example1_duplicate =
     [kp ''leftShoulder'' 0 0, kp ''rightShoulder'' 300 0, kp ''leftShoulder'' 7 9,
      kp ''leftHip'' 50 200, kp ''rightHip'' 300 200, kp ''nose'' 150 0,
      kp ''leftAnkle'' 150 600]"

definition netOther :: "nat PoseNet" where
  "netOther =
     \<lparr>estimateSinglePose = (\<lambda>video flip. Inr (Some \<lparr>keypoints = example1, poseScore = fromInt 0\<rparr>))\<rparr>"

text \<open>
  Index \<open>i\<close> holds the first entry of the array, in iteration order, whose part name
  is \<open>n\<close>.
\<close>

definition firstMatch :: "string \<Rightarrow> Keypoint list \<Rightarrow> nat \<Rightarrow> bool" where
  "firstMatch n kps i =
     (i < length kps \<and> part (kps ! i) = n \<and> (\<forall>j \<in> {..<i}. part (kps ! j) \<noteq> n))"


definition exampleNaN :: "Keypoint list" where
  "exampleNaN =
     [\<lparr>part = ''leftShoulder'', position = \<lparr>x = NaN, y = fromInt 0\<rparr>, score = fromInt 1\<rparr>,
      kp ''rightShoulder'' 0 0]"

text \<open>
  For the proofs: a number with its sign cleared (\<open>Math.abs\<close>), and the numbers other
  than \<open>NaN\<close> whose sign is positive.
\<close>

fun magnitude :: "number \<Rightarrow> number" where
  "magnitude NaN = NaN"
| "magnitude (Infinity s) = Infinity False"
| "magnitude (Finite s m e) = Finite False m e"

fun positiveSign :: "number \<Rightarrow> bool" where
  "positiveSign NaN = False"
| "positiveSign (Infinity s) = (\<not> s)"
| "positiveSign (Finite s m e) = (\<not> s)"

section \<open>Properties of the arithmetic\<close>

text \<open>Rules that evaluate the arithmetic on numerals inside the simplifier.\<close>

lemma bitlen_0: "bitlen 0 = 0"
  by (simp add: bitlen.simps)

lemma bitlen_pos: "0 < n \<Longrightarrow> bitlen n = Suc (bitlen (n div 2))"
  by (subst bitlen.simps) simp

lemmas number_eval = fromInt_def rounded_def roundEven_def bitlen_0 bitlen_pos
  js_sub_def sqrtRounded_def isqrt_def signed_def

text \<open>
  The digits of \<open>bitlen\<close>, the integer square root, the nearest quotient of
  \<open>roundEven\<close>, and the format of every result.
\<close>

lemma bitlen_bounds: "0 < m \<Longrightarrow> 2 ^ (bitlen m - 1) \<le> m \<and> m < 2 ^ bitlen m"
proof (induction m rule: bitlen.induct)
  case (1 n)
  show ?case
  proof (cases "n div 2 = 0")
    case True
    with 1 have "n = 1" by (auto simp: div_eq_0_iff)
    then show ?thesis by (simp add: bitlen_pos bitlen_0)
  next
    case False
    then have pos: "0 < n div 2" by simp
    with 1 have ih: "2 ^ (bitlen (n div 2) - 1) \<le> n div 2" "n div 2 < 2 ^ bitlen (n div 2)"
      by auto
    have b: "bitlen n = Suc (bitlen (n div 2))"
      using 1 by (simp add: bitlen_pos)
    have b1: "0 < bitlen (n div 2)"
      using pos by (simp add: bitlen_pos)
    have "(2 :: nat) ^ bitlen (n div 2) = 2 * 2 ^ (bitlen (n div 2) - 1)"
      using b1 by (cases "bitlen (n div 2)") auto
    with ih have "2 ^ bitlen (n div 2) \<le> 2 * (n div 2)" "2 * (n div 2) + 2 \<le> 2 * 2 ^ bitlen (n div 2)"
      by auto
    then show ?thesis
      unfolding b by (auto simp: algebra_simps)
  qed
qed

lemma isqrt_from_bounds:
  assumes "r * r \<le> n" and "n < (r + 2 ^ k) * (r + 2 ^ k)"
  shows "isqrt_from k n r * isqrt_from k n r \<le> n \<and>
         n < (isqrt_from k n r + 1) * (isqrt_from k n r + 1)"
  using assms
proof (induction k arbitrary: r)
  case 0
  then show ?case by simp
next
  case (Suc k)
  show ?case
  proof (cases "(r + 2 ^ k) * (r + 2 ^ k) \<le> n")
    case True
    have "r + 2 ^ k + 2 ^ k = r + 2 ^ Suc k" by simp
    with Suc.prems True Suc.IH [of "r + 2 ^ k"] show ?thesis
      by simp
  next
    case False
    with Suc.prems Suc.IH [of r] show ?thesis
      by simp
  qed
qed

lemma isqrt_bounds: "isqrt n * isqrt n \<le> n \<and> n < (isqrt n + 1) * (isqrt n + 1)"
proof (cases "n = 0")
  case True
  then show ?thesis by (simp add: isqrt_def bitlen_0)
next
  case False
  then have "n < 2 ^ bitlen n"
    using bitlen_bounds [of n] by simp
  also have "\<dots> \<le> 2 ^ bitlen n * 2 ^ bitlen n"
    by simp
  finally have "n < (0 + 2 ^ bitlen n) * (0 + 2 ^ bitlen n)"
    by simp
  from isqrt_from_bounds [OF _ this] show ?thesis
    by (simp add: isqrt_def)
qed


lemma roundEven_cases: "roundEven m d = m div 2 ^ d \<or> roundEven m d = m div 2 ^ d + 1"
  by (simp add: roundEven_def Let_def)

lemma roundEven_nearest:
  "2 * (roundEven m d * 2 ^ d - m) \<le> 2 ^ d \<and> 2 * (m - roundEven m d * 2 ^ d) \<le> 2 ^ d"
proof -
  define q where "q = m div 2 ^ d"
  define r where "r = m mod 2 ^ d"
  define v where "v = roundEven m d"
  have m: "m = q * 2 ^ d + r"
    unfolding q_def r_def by (rule div_mult_mod_eq [symmetric])
  have r: "r < 2 ^ d"
    by (simp add: r_def)
  have v: "v = (if 2 ^ d < 2 * r \<or> (2 * r = 2 ^ d \<and> odd q) then q + 1 else q)"
    by (simp add: v_def roundEven_def Let_def q_def r_def)
  have "2 * (v * 2 ^ d - m) \<le> 2 ^ d \<and> 2 * (m - v * 2 ^ d) \<le> 2 ^ d"
  proof (cases "2 ^ d < 2 * r \<or> (2 * r = 2 ^ d \<and> odd q)")
    case True
    then have up: "2 ^ d \<le> 2 * r"
      by auto
    from True have "v * 2 ^ d = m + (2 ^ d - r)"
      using r by (simp add: v m algebra_simps)
    with up show ?thesis by simp
  next
    case False
    then have down: "2 * r \<le> 2 ^ d"
      by auto
    from False have "m = v * 2 ^ d + r"
      by (simp add: v m)
    with down show ?thesis by simp
  qed
  then show ?thesis by (simp add: v_def)
qed

lemma isDouble_rounded: "isDouble (rounded s m e)"
proof (cases "m = 0")
  case True
  then show ?thesis by (simp add: rounded_def)
next
  case False
  define k where "k = bitlen m"
  define ulp where "ulp = max (e + int k - 53) (- 1074)"
  from False have lo: "2 ^ (k - 1) \<le> m" and hi: "m < 2 ^ k" and kpos: "0 < k"
    using bitlen_bounds [of m] bitlen_pos [of m] by (simp_all add: k_def)
  have ulp_lo: "- 1074 \<le> ulp" and ulp_ge: "e + int k - 53 \<le> ulp"
    by (simp_all add: ulp_def)
  have ulp_eq: "ulp = e + int k - 53" if "ulp \<noteq> - 1074"
    using that by (simp add: ulp_def max_def split: if_splits)
  show ?thesis
  proof (cases "ulp \<le> e")
    case True
    define d where "d = nat (e - ulp)"
    have kd: "k + d \<le> 53"
      using ulp_ge True by (simp add: d_def)
    have "m * 2 ^ d < 2 ^ k * 2 ^ d"
      using hi by simp
    also have "\<dots> = 2 ^ (k + d)"
      by (simp add: power_add)
    also have "\<dots> \<le> 2 ^ 53"
      using kd by (intro power_increasing) simp_all
    finally have q_hi: "m * 2 ^ d < 2 ^ 53" .
    have q_lo: "2 ^ 52 \<le> m * 2 ^ d" if "ulp \<noteq> - 1074"
    proof -
      from ulp_eq [OF that] True have d: "d = 53 - k" and k53: "k \<le> 53"
        by (simp_all add: d_def)
      have "(2 :: nat) ^ 52 = 2 ^ (k - 1) * 2 ^ (53 - k)"
        using kpos k53 by (simp add: power_add [symmetric])
      also have "\<dots> \<le> m * 2 ^ (53 - k)"
        using lo by simp
      finally show ?thesis by (simp add: d)
    qed
    show ?thesis
      using True False q_hi q_lo ulp_lo
      by (auto simp: rounded_def Let_def k_def [symmetric] ulp_def [symmetric] d_def [symmetric])
  next
    case False
    define d where "d = nat (ulp - e)"
    define q where "q = roundEven m d"
    have "k \<le> d + 53"
      using ulp_ge False by (simp add: d_def)
    then have "(2 :: nat) ^ k \<le> 2 ^ (d + 53)"
      by (intro power_increasing) simp_all
    with hi have "m < 2 ^ 53 * 2 ^ d"
      by (simp add: power_add mult.commute)
    then have q0_hi: "m div 2 ^ d < 2 ^ 53"
      by (simp add: less_mult_imp_div_less)
    then have q_hi: "q \<le> 2 ^ 53"
      using roundEven_cases [of m d] by (auto simp: q_def)
    have q_lo: "2 ^ 52 \<le> q" if "ulp \<noteq> - 1074"
    proof -
      from ulp_eq [OF that] False have d: "d = k - 53" and k53: "53 < k"
        by (simp_all add: d_def)
      have "k - 1 = 52 + d"
        using k53 by (simp add: d)
      then have "(2 :: nat) ^ (k - 1) = 2 ^ 52 * 2 ^ d"
        by (simp only: power_add)
      with lo have "2 ^ 52 * 2 ^ d \<le> m"
        by simp
      then have "2 ^ 52 \<le> m div 2 ^ d"
        by (simp add: less_eq_div_iff_mult_less_eq)
      then show ?thesis
        using roundEven_cases [of m d] by (auto simp: q_def)
    qed
    show ?thesis
      using False \<open>m \<noteq> 0\<close> q_hi q_lo ulp_lo
      by (auto simp: rounded_def Let_def k_def [symmetric] ulp_def [symmetric] d_def [symmetric]
          q_def [symmetric])
  qed
qed

lemma isDouble_fromInt: "isDouble (fromInt i)"
  by (simp add: fromInt_def isDouble_rounded)

lemma isDouble_js_add: "isDouble (js_add a b)"
  by (cases a; cases b) (simp_all add: Let_def isDouble_rounded)

lemma isDouble_js_neg: "isDouble a \<Longrightarrow> isDouble (js_neg a)"
  by (cases a) simp_all

lemma isDouble_js_sub: "isDouble (js_sub a b)"
  by (simp add: js_sub_def isDouble_js_add)

lemma isDouble_js_mul: "isDouble (js_mul a b)"
  by (cases a; cases b) (simp_all add: isDouble_rounded)

lemma isDouble_js_sqrt: "isDouble (js_sqrt a)"
  by (cases a) (simp_all add: sqrtRounded_def isDouble_rounded)

lemma isDouble_calculateDistance: "isDouble (calculateDistance p q)"
  by (simp add: calculateDistance_def Let_def isDouble_js_sqrt)

text \<open>Signs: what the claims about symmetry and non-negative components rest on.\<close>

lemma rounded_cases:
  "rounded s m e = Infinity s \<or> (\<exists>m' e'. rounded s m e = Finite s m' e')"
  by (simp add: rounded_def Let_def)

lemma rounded_not_NaN: "rounded s m e \<noteq> NaN"
  using rounded_cases [of s m e] by auto

lemma positiveSign_rounded: "positiveSign (rounded False m e)"
  using rounded_cases [of False m e] by auto

lemma magnitude_rounded: "magnitude (rounded s m e) = rounded False m e"
  by (simp add: rounded_def Let_def)

lemma positiveSign_nonNegative: "positiveSign a \<Longrightarrow> nonNegative a"
  by (cases a) auto

lemma js_mul_magnitude: "js_mul a a = js_mul (magnitude a) (magnitude a)"
  by (cases a) auto

lemma signed_negate: "signed (\<not> s) m = - signed s m"
  by (simp add: signed_def)

lemma magnitude_js_sub: "magnitude (js_sub a b) = magnitude (js_sub b a)"
proof (cases a)
  case NaN
  then show ?thesis by (cases b) (simp_all add: js_sub_def)
next
  case (Infinity s)
  then show ?thesis by (cases b) (auto simp: js_sub_def)
next
  case a: (Finite s m e)
  show ?thesis
  proof (cases b)
    case NaN
    with a show ?thesis by (simp add: js_sub_def)
  next
    case (Infinity t)
    with a show ?thesis by (simp add: js_sub_def)
  next
    case b: (Finite t n f)
    show ?thesis
      by (simp add: a b js_sub_def Let_def magnitude_rounded min.commute signed_negate
          abs_minus_commute)
  qed
qed

lemma js_mul_js_sub_swap:
  "js_mul (js_sub a b) (js_sub a b) = js_mul (js_sub b a) (js_sub b a)"
  by (metis js_mul_magnitude magnitude_js_sub)

lemma calculateDistance_swap: "calculateDistance a b = calculateDistance b a"
  by (simp add: calculateDistance_def Let_def js_mul_js_sub_swap [of "x a" "x b"]
      js_mul_js_sub_swap [of "y a" "y b"])

lemma strictEquals_self: "strictEquals a a = (a \<noteq> NaN)"
  by (cases a) auto

lemma js_sqrt_NaN_or_nonNegative: "js_sqrt a = NaN \<or> nonNegative (js_sqrt a)"
proof (cases a)
  case (Finite s m e)
  then show ?thesis
    using positiveSign_rounded positiveSign_nonNegative by (simp add: sqrtRounded_def)
qed simp_all

lemma positiveSign_js_sqrt: "positiveSign a \<Longrightarrow> positiveSign (js_sqrt a)"
  by (cases a) (simp_all add: sqrtRounded_def positiveSign_rounded)

lemma positiveSign_square: "a \<noteq> NaN \<Longrightarrow> positiveSign (js_mul a a)"
  by (cases a) (simp_all add: positiveSign_rounded)

lemma positiveSign_js_add:
  assumes "positiveSign a" and "positiveSign b"
  shows "positiveSign (js_add a b)"
proof (cases a)
  case NaN
  with assms show ?thesis by simp
next
  case (Infinity s)
  with assms show ?thesis by (cases b) auto
next
  case a: (Finite s m e)
  show ?thesis
  proof (cases b)
    case NaN
    with assms show ?thesis by simp
  next
    case (Infinity t)
    with a assms show ?thesis by simp
  next
    case b: (Finite t n f)
    from a b assms have st: "\<not> s" "\<not> t" by simp_all
    have "0 \<le> signed s m * 2 ^ nat (e - min e f) + signed t n * 2 ^ nat (f - min e f)"
      using st by (simp add: signed_def)
    then show ?thesis
      using st by (simp add: a b Let_def positiveSign_rounded)
  qed
qed

lemma js_sub_finite_not_NaN: "isFinite a \<Longrightarrow> isFinite b \<Longrightarrow> js_sub a b \<noteq> NaN"
  by (cases a; cases b) (simp_all add: js_sub_def Let_def rounded_not_NaN)

lemma calculateDistance_NaN_or_nonNegative:
  "calculateDistance p q = NaN \<or> nonNegative (calculateDistance p q)"
  by (simp add: calculateDistance_def Let_def js_sqrt_NaN_or_nonNegative)

lemma positiveSign_calculateDistance:
  assumes "isFinite (x p)" "isFinite (y p)" "isFinite (x q)" "isFinite (y q)"
  shows "positiveSign (calculateDistance p q)"
  unfolding calculateDistance_def Let_def
  by (intro positiveSign_js_sqrt positiveSign_js_add positiveSign_square
      js_sub_finite_not_NaN assms)

section \<open>Lookup and distance lemmas\<close>

lemma detectPose_pose:
  "estimateSinglePose net video False = Inr (Some pose) \<Longrightarrow>
     detectPose video net =
       Inr (MeasurementsR
             \<lparr>shoulderWidth = lookupDistance ''leftShoulder'' ''rightShoulder'' (keypoints pose),
              hipWidth = lookupDistance ''leftHip'' ''rightHip'' (keypoints pose),
              height = lookupDistance ''nose'' ''leftAnkle'' (keypoints pose)\<rparr>)"
  by (simp add: detectPose_def detectPose_try_def lookupDistance_def Let_def)

lemma detectPose_throws:
  "estimateSinglePose net video False = Inl e \<Longrightarrow>
     detectPose video net =
       Inr (ErrorR \<lparr>success = False,
                    message = ''An error occurred during pose detection. Please try again.''\<rparr>)"
  by (simp add: detectPose_def detectPose_try_def)

lemma detectPose_no_pose:
  "estimateSinglePose net video False = Inr None \<Longrightarrow>
     detectPose video net =
       Inr (ErrorR \<lparr>success = False,
                    message = ''Pose estimation failed. Could not detect key points.''\<rparr>)"
  by (simp add: detectPose_def detectPose_try_def)

lemma lookupDistance_found:
  "find (\<lambda>k. part k = n1) kps = Some a \<Longrightarrow> find (\<lambda>k. part k = n2) kps = Some b \<Longrightarrow>
     lookupDistance n1 n2 kps = calculateDistance (position a) (position b)"
  by (simp add: lookupDistance_def)

lemma find_part_None: "(find (\<lambda>k. part k = n) kps = None) = (\<forall>k \<in> set kps. part k \<noteq> n)"
  by (auto simp: find_None_iff)

lemma lookupDistance_missing:
  "(\<forall>k \<in> set kps. part k \<noteq> n1) \<or> (\<forall>k \<in> set kps. part k \<noteq> n2) \<Longrightarrow>
     lookupDistance n1 n2 kps = fromInt 0"
  by (auto simp: lookupDistance_def find_part_None [symmetric] split: option.splits)

lemma find_part_present:
  assumes "\<exists>k \<in> set kps. part k = n"
  shows "\<exists>a. find (\<lambda>k. part k = n) kps = Some a \<and> a \<in> set kps \<and> part a = n"
proof -
  from assms have "find (\<lambda>k. part k = n) kps \<noteq> None"
    by (simp add: find_part_None)
  then obtain a where a: "find (\<lambda>k. part k = n) kps = Some a"
    by auto
  then have "a \<in> set kps" "part a = n"
    by (auto simp: find_Some_iff)
  with a show ?thesis by simp
qed


lemma fromInt_0: "fromInt 0 = Finite False 0 (- 1074)"
  by (simp add: fromInt_def rounded_def)

lemma lookupDistance_NaN_or_nonNegative:
  "lookupDistance n1 n2 kps = NaN \<or> nonNegative (lookupDistance n1 n2 kps)"
  using calculateDistance_NaN_or_nonNegative
  by (simp add: lookupDistance_def fromInt_0 split: option.splits)

lemma nonNegative_lookupDistance:
  assumes "\<forall>k \<in> set kps. isFinite (x (position k)) \<and> isFinite (y (position k))"
  shows "nonNegative (lookupDistance n1 n2 kps)"
proof (cases "find (\<lambda>k. part k = n1) kps")
  case None
  then show ?thesis by (simp add: lookupDistance_def fromInt_0)
next
  case a: (Some a)
  show ?thesis
  proof (cases "find (\<lambda>k. part k = n2) kps")
    case None
    with a show ?thesis by (simp add: lookupDistance_def fromInt_0)
  next
    case b: (Some b)
    from a b have "a \<in> set kps" "b \<in> set kps"
      by (auto simp: find_Some_iff)
    with assms have "positiveSign (calculateDistance (position a) (position b))"
      by (intro positiveSign_calculateDistance) auto
    then show ?thesis
      using a b by (simp add: lookupDistance_found positiveSign_nonNegative)
  qed
qed

lemma find_part_table:
  assumes T: "(\<lambda>k. (part k, x (position k), y (position k))) ` set kps = T"
    and mem: "(n, px, py) \<in> T"
    and uniq: "\<forall>(n', q) \<in> T. n' = n \<longrightarrow> q = (px, py)"
  shows "\<exists>a. find (\<lambda>k. part k = n) kps = Some a \<and> x (position a) = px \<and> y (position a) = py"
proof -
  from mem T have "\<exists>k \<in> set kps. part k = n" by auto
  from find_part_present [OF this] obtain a where
    a: "find (\<lambda>k. part k = n) kps = Some a" "a \<in> set kps" "part a = n"
    by auto
  then have "(n, x (position a), y (position a)) \<in> T"
    using T by force
  with uniq have "x (position a) = px \<and> y (position a) = py" by auto
  with a show ?thesis by simp
qed

lemma find_firstMatch:
  "firstMatch n kps i \<Longrightarrow> find (\<lambda>k. part k = n) kps = Some (kps ! i)"
  unfolding firstMatch_def find_Some_iff by auto

lemma lookupDistance_firstMatch:
  "firstMatch n1 kps i \<Longrightarrow> firstMatch n2 kps j \<Longrightarrow>
     lookupDistance n1 n2 kps = calculateDistance (position (kps ! i)) (position (kps ! j))"
  by (simp add: lookupDistance_found find_firstMatch)

lemma find_append_cases:
  "find P (xs @ zs) = (case find P xs of None \<Rightarrow> find P zs | Some a \<Rightarrow> Some a)"
  by (induction xs) auto

lemma find_later_duplicate:
  assumes "\<exists>k \<in> set xs. part k = part d"
  shows "find (\<lambda>k. part k = n) (xs @ d # ys) = find (\<lambda>k. part k = n) (xs @ ys)"
proof (cases "part d = n")
  case True
  with assms have "find (\<lambda>k. part k = n) xs \<noteq> None"
    by (auto simp: find_None_iff)
  then show ?thesis
    by (auto simp: find_append_cases)
next
  case False
  then show ?thesis
    by (simp add: find_append_cases split: option.splits)
qed

lemma lookupDistance_later_duplicate:
  assumes "\<exists>k \<in> set xs. part k = part d"
  shows "lookupDistance n1 n2 (xs @ d # ys) = lookupDistance n1 n2 (xs @ ys)"
  unfolding lookupDistance_def
  by (simp only: find_later_duplicate [OF assms])

lemma netOf_estimate:
  "estimateSinglePose (netOf kps) video flip = Inr (Some \<lparr>keypoints = kps, poseScore = fromInt 1\<rparr>)"
  by (simp add: netOf_def)

lemma netOther_estimate:
  "estimateSinglePose netOther video flip = Inr (Some \<lparr>keypoints = example1, poseScore = fromInt 0\<rparr>)"
  by (simp add: netOther_def)

section \<open>The arithmetic at the example coordinates\<close>

lemma distance_shoulders:
  assumes "x p = fromInt 0" "y p = fromInt 0" "x q = fromInt 300" "y q = fromInt 0"
  shows "calculateDistance p q = fromInt 300"
  by (simp add: calculateDistance_def assms number_eval)

lemma distance_hips:
  assumes "x p = fromInt 50" "y p = fromInt 200" "x q = fromInt 300" "y q = fromInt 200"
  shows "calculateDistance p q = fromInt 250"
  by (simp add: calculateDistance_def assms number_eval)

lemma distance_height:
  assumes "x p = fromInt 150" "y p = fromInt 0" "x q = fromInt 150" "y q = fromInt 600"
  shows "calculateDistance p q = fromInt 600"
  by (simp add: calculateDistance_def assms number_eval)


text \<open>
  The limits of the arithmetic: \<open>1e200\<close> is the double \<open>5883593420661338 * 2 ^ 612\<close>, whose
  square overflows; \<open>1e-200\<close> is \<open>6894565328877484 * 2 ^ (- 717)\<close>, whose square underflows
  to zero; the difference of two infinities is \<open>NaN\<close>, as is every result computed from
  a \<open>NaN\<close>.
\<close>

lemma distance_overflow:
  assumes "x p = Finite False 5883593420661338 612" "y p = fromInt 0"
    "x q = fromInt 0" "y q = fromInt 0"
  shows "calculateDistance p q = Infinity False"
  by (simp add: calculateDistance_def assms number_eval)

lemma distance_underflow:
  assumes "x p = Finite False 6894565328877484 (- 717)" "y p = fromInt 0"
    "x q = fromInt 0" "y q = fromInt 0"
  shows "calculateDistance p q = fromInt 0"
  by (simp add: calculateDistance_def assms number_eval)

lemma distance_Infinity_Infinity:
  assumes "x p = Infinity False" "x q = Infinity False"
  shows "calculateDistance p q = NaN"
  by (simp add: calculateDistance_def assms js_sub_def)

lemma distance_NaN: "x p = NaN \<Longrightarrow> calculateDistance p q = NaN"
  by (simp add: calculateDistance_def js_sub_def)

lemma distance_NaN_right: "x q = NaN \<Longrightarrow> calculateDistance p q = NaN"
  using distance_NaN [of q p] by (simp add: calculateDistance_swap)

lemma isFinite_fromInt_small:
  "isFinite (fromInt 0)" "isFinite (fromInt 1)" "isFinite (fromInt 50)" "isFinite (fromInt 150)"
  "isFinite (fromInt 200)" "isFinite (fromInt 300)" "isFinite (fromInt 600)"
  by (simp_all add: number_eval)

lemma example1_table:
  "(\<lambda>k. (part k, x (position k), y (position k))) ` set example1 =
      {(''leftShoulder'', fromInt 0, fromInt 0), (''rightShoulder'', fromInt 300, fromInt 0),
       (''leftHip'', fromInt 50, fromInt 200), (''rightHip'', fromInt 300, fromInt 200),
       (''nose'', fromInt 150, fromInt 0), (''leftAnkle'', fromInt 150, fromInt 600)}"
  by (simp add: example1_def kp_def)

lemma example1_lookups:
  "lookupDistance ''leftShoulder'' ''rightShoulder'' example1 = fromInt 300"
  "lookupDistance ''leftHip'' ''rightHip'' example1 = fromInt 250"
  "lookupDistance ''nose'' ''leftAnkle'' example1 = fromInt 600"
  by (simp_all add: lookupDistance_def example1_def kp_def distance_shoulders distance_hips
      distance_height)

lemma detectPose_netOf_example1:
  "detectPose () (netOf example1) =
     Inr (MeasurementsR
           \<lparr>shoulderWidth = fromInt 300, hipWidth = fromInt 250, height = fromInt 600\<rparr>)"
  by (simp add: detectPose_pose [OF netOf_estimate] example1_lookups)

lemma example1_finite:
  "\<forall>k \<in> set example1. isFinite (x (position k)) \<and> isFinite (y (position k))"
  by (simp add: example1_def kp_def isFinite_fromInt_small)


lemma detectPose_netOf_exampleNaN:
  "detectPose () (netOf exampleNaN) =
     Inr (MeasurementsR \<lparr>shoulderWidth = NaN, hipWidth = fromInt 0, height = fromInt 0\<rparr>)"
  by (simp add: detectPose_pose [OF netOf_estimate] lookupDistance_def exampleNaN_def kp_def
      distance_NaN)


section \<open>The measurements of a detected pose\<close>




text \<open>
  Claim C2. When the estimator resolves to a pose whose keypoint array lacks one or
  both keypoints of a pair, \<open>detectPose\<close> still resolves to a \<open>Measurements\<close> record
  (not to an \<open>ErrorResult\<close>), and the component of that pair is exactly 0.
\<close>

theorem detectPose_missing_pair_zero:
  assumes "estimateSinglePose net video False = Inr (Some pose)"
  shows "\<exists>m. detectPose video net = Inr (MeasurementsR m) \<and>
    ((\<forall>k \<in> set (keypoints pose). part k \<noteq> ''leftShoulder'') \<or>
     (\<forall>k \<in> set (keypoints pose). part k \<noteq> ''rightShoulder'') \<longrightarrow> shoulderWidth m = fromInt 0) \<and>
    ((\<forall>k \<in> set (keypoints pose). part k \<noteq> ''leftHip'') \<or>
     (\<forall>k \<in> set (keypoints pose). part k \<noteq> ''rightHip'') \<longrightarrow> hipWidth m = fromInt 0) \<and>
    ((\<forall>k \<in> set (keypoints pose). part k \<noteq> ''nose'') \<or>
     (\<forall>k \<in> set (keypoints pose). part k \<noteq> ''leftAnkle'') \<longrightarrow> height m = fromInt 0)"
  by (simp add: detectPose_pose [OF assms] lookupDistance_missing)

theorem detectPose_missing_pair_zero_witness:
  "estimateSinglePose (netOf example2) () False =
     Inr (Some \<lparr>keypoints = example2, poseScore = fromInt 1\<rparr>) \<and>
   \<not> (\<exists>k \<in> set example2. part k = ''leftShoulder'') \<and>
   \<not> (\<exists>k \<in> set example2. part k = ''rightHip'') \<and>
   \<not> (\<exists>k \<in> set [kp ''nose'' 150 0]. part k = ''leftAnkle'') \<and>
   (\<exists>m. detectPose () (netOf example2) = Inr (MeasurementsR m) \<and>
        shoulderWidth m = fromInt 0 \<and> hipWidth m = fromInt 0) \<and>
   (\<exists>m. detectPose () (netOf [kp ''nose'' 150 0]) = Inr (MeasurementsR m) \<and> height m = fromInt 0)"
proof -
  have e: "estimateSinglePose (netOf example2) () False =
             Inr (Some \<lparr>keypoints = example2, poseScore = fromInt 1\<rparr>)"
    by (rule netOf_estimate)
  have e': "estimateSinglePose (netOf [kp ''nose'' 150 0]) () False =
             Inr (Some \<lparr>keypoints = [kp ''nose'' 150 0], poseScore = fromInt 1\<rparr>)"
    by (rule netOf_estimate)
  have a: "\<forall>k \<in> set example2. part k \<noteq> ''leftShoulder''"
    "\<forall>k \<in> set example2. part k \<noteq> ''rightHip''"
    "\<forall>k \<in> set [kp ''nose'' 150 0]. part k \<noteq> ''leftAnkle''"
    by (simp_all add: example2_def kp_def)
  from detectPose_missing_pair_zero [OF e] a
  have 1: "\<exists>m. detectPose () (netOf example2) = Inr (MeasurementsR m) \<and>
        shoulderWidth m = fromInt 0 \<and> hipWidth m = fromInt 0"
    by auto
  from detectPose_missing_pair_zero [OF e'] a
  have 2: "\<exists>m. detectPose () (netOf [kp ''nose'' 150 0]) = Inr (MeasurementsR m) \<and> height m = fromInt 0"
    by auto
  from a have b: "\<not> (\<exists>k \<in> set example2. part k = ''leftShoulder'')"
    "\<not> (\<exists>k \<in> set example2. part k = ''rightHip'')"
    "\<not> (\<exists>k \<in> set [kp ''nose'' 150 0]. part k = ''leftAnkle'')"
    by blast+
  show ?thesis using e b 1 2 by blast
qed

text \<open>
  Claim C4. For a keypoint array that holds exactly leftShoulder at (0,0),
  rightShoulder at (300,0), leftHip at (50,200), rightHip at (300,200), nose at (150,0)
  and leftAnkle at (150,600), in any order and with any scores, \<open>detectPose\<close> resolves
  to the record with \<open>shoulderWidth\<close> 300, \<open>hipWidth\<close> 250 and \<open>height\<close> 600.
\<close>

theorem detectPose_spec_example_one:
  assumes est: "estimateSinglePose net video False = Inr (Some pose)"
    and kps: "(\<lambda>k. (part k, x (position k), y (position k))) ` set (keypoints pose) =
      {(''leftShoulder'', fromInt 0, fromInt 0), (''rightShoulder'', fromInt 300, fromInt 0),
       (''leftHip'', fromInt 50, fromInt 200), (''rightHip'', fromInt 300, fromInt 200),
       (''nose'', fromInt 150, fromInt 0), (''leftAnkle'', fromInt 150, fromInt 600)}"
  shows "detectPose video net =
           Inr (MeasurementsR
                 \<lparr>shoulderWidth = fromInt 300, hipWidth = fromInt 250, height = fromInt 600\<rparr>)"
proof -
  obtain ls where ls: "find (\<lambda>k. part k = ''leftShoulder'') (keypoints pose) = Some ls"
      "x (position ls) = fromInt 0" "y (position ls) = fromInt 0"
    using find_part_table [OF kps, of "''leftShoulder''" "fromInt 0" "fromInt 0"] by auto
  obtain rs where rs: "find (\<lambda>k. part k = ''rightShoulder'') (keypoints pose) = Some rs"
      "x (position rs) = fromInt 300" "y (position rs) = fromInt 0"
    using find_part_table [OF kps, of "''rightShoulder''" "fromInt 300" "fromInt 0"] by auto
  obtain lh where lh: "find (\<lambda>k. part k = ''leftHip'') (keypoints pose) = Some lh"
      "x (position lh) = fromInt 50" "y (position lh) = fromInt 200"
    using find_part_table [OF kps, of "''leftHip''" "fromInt 50" "fromInt 200"] by auto
  obtain rh where rh: "find (\<lambda>k. part k = ''rightHip'') (keypoints pose) = Some rh"
      "x (position rh) = fromInt 300" "y (position rh) = fromInt 200"
    using find_part_table [OF kps, of "''rightHip''" "fromInt 300" "fromInt 200"] by auto
  obtain no where no: "find (\<lambda>k. part k = ''nose'') (keypoints pose) = Some no"
      "x (position no) = fromInt 150" "y (position no) = fromInt 0"
    using find_part_table [OF kps, of "''nose''" "fromInt 150" "fromInt 0"] by auto
  obtain la where la: "find (\<lambda>k. part k = ''leftAnkle'') (keypoints pose) = Some la"
      "x (position la) = fromInt 150" "y (position la) = fromInt 600"
    using find_part_table [OF kps, of "''leftAnkle''" "fromInt 150" "fromInt 600"] by auto
  have "lookupDistance ''leftShoulder'' ''rightShoulder'' (keypoints pose) = fromInt 300"
    using ls rs by (simp add: lookupDistance_found distance_shoulders)
  moreover have "lookupDistance ''leftHip'' ''rightHip'' (keypoints pose) = fromInt 250"
    using lh rh by (simp add: lookupDistance_found distance_hips)
  moreover have "lookupDistance ''nose'' ''leftAnkle'' (keypoints pose) = fromInt 600"
    using no la by (simp add: lookupDistance_found distance_height)
  ultimately show ?thesis
    by (simp add: detectPose_pose [OF est])
qed

theorem detectPose_spec_example_one_witness:
  "estimateSinglePose (netOf example1) () False =
     Inr (Some \<lparr>keypoints = example1, poseScore = fromInt 1\<rparr>) \<and>
   (\<lambda>k. (part k, x (position k), y (position k))) ` set example1 =
      {(''leftShoulder'', fromInt 0, fromInt 0), (''rightShoulder'', fromInt 300, fromInt 0),
       (''leftHip'', fromInt 50, fromInt 200), (''rightHip'', fromInt 300, fromInt 200),
       (''nose'', fromInt 150, fromInt 0), (''leftAnkle'', fromInt 150, fromInt 600)} \<and>
   detectPose () (netOf example1) =
     Inr (MeasurementsR
           \<lparr>shoulderWidth = fromInt 300, hipWidth = fromInt 250, height = fromInt 600\<rparr>)"
proof -
  have e: "estimateSinglePose (netOf example1) () False =
             Inr (Some \<lparr>keypoints = example1, poseScore = fromInt 1\<rparr>)"
    by (rule netOf_estimate)
  have t: "(\<lambda>k. (part k, x (position k), y (position k))) `
             set (keypoints \<lparr>keypoints = example1, poseScore = fromInt 1\<rparr>) =
      {(''leftShoulder'', fromInt 0, fromInt 0), (''rightShoulder'', fromInt 300, fromInt 0),
       (''leftHip'', fromInt 50, fromInt 200), (''rightHip'', fromInt 300, fromInt 200),
       (''nose'', fromInt 150, fromInt 0), (''leftAnkle'', fromInt 150, fromInt 600)}"
    by (simp add: example1_table)
  from detectPose_spec_example_one [OF e t] e example1_table show ?thesis by blast
qed

text \<open>
  Claim C7, as amended. Whenever \<open>detectPose\<close> resolves to a \<open>Measurements\<close> record, each of
  its three components \<open>shoulderWidth\<close>, \<open>hipWidth\<close> and \<open>height\<close> is non-negative
  (possibly \<open>Infinity\<close>) or \<open>NaN\<close>; and all three are non-negative when every coordinate of
  every keypoint of the pose is a finite number.
\<close>

theorem detectPose_components_nonneg:
  assumes "detectPose video net = Inr (MeasurementsR m)"
  shows "(nonNegative (shoulderWidth m) \<or> shoulderWidth m = NaN) \<and>
    (nonNegative (hipWidth m) \<or> hipWidth m = NaN) \<and>
    (nonNegative (height m) \<or> height m = NaN) \<and>
    (\<forall>pose. estimateSinglePose net video False = Inr (Some pose) \<and>
       (\<forall>k \<in> set (keypoints pose). isFinite (x (position k)) \<and> isFinite (y (position k))) \<longrightarrow>
       nonNegative (shoulderWidth m) \<and> nonNegative (hipWidth m) \<and> nonNegative (height m))"
proof (cases "estimateSinglePose net video False")
  case (Inl e)
  with assms show ?thesis by (simp add: detectPose_throws)
next
  case (Inr p)
  show ?thesis
  proof (cases p)
    case None
    with Inr assms show ?thesis by (simp add: detectPose_no_pose)
  next
    case (Some pose)
    with Inr have est: "estimateSinglePose net video False = Inr (Some pose)" by simp
    from detectPose_pose [OF est] assms
    have m: "shoulderWidth m = lookupDistance ''leftShoulder'' ''rightShoulder'' (keypoints pose)"
      "hipWidth m = lookupDistance ''leftHip'' ''rightHip'' (keypoints pose)"
      "height m = lookupDistance ''nose'' ''leftAnkle'' (keypoints pose)"
      by auto
    show ?thesis
      using lookupDistance_NaN_or_nonNegative [of "''leftShoulder''" "''rightShoulder''" "keypoints pose"]
        lookupDistance_NaN_or_nonNegative [of "''leftHip''" "''rightHip''" "keypoints pose"]
        lookupDistance_NaN_or_nonNegative [of "''nose''" "''leftAnkle''" "keypoints pose"]
      by (auto simp: m est nonNegative_lookupDistance)
  qed
qed

theorem detectPose_components_nonneg_witness:
  "detectPose () (netOf example1) =
     Inr (MeasurementsR
           \<lparr>shoulderWidth = fromInt 300, hipWidth = fromInt 250, height = fromInt 600\<rparr>) \<and>
   estimateSinglePose (netOf example1) () False =
     Inr (Some \<lparr>keypoints = example1, poseScore = fromInt 1\<rparr>) \<and>
   \<not> (\<exists>k \<in> set example1. \<not> (isFinite (x (position k)) \<and> isFinite (y (position k)))) \<and>
   nonNegative (fromInt 300) \<and> nonNegative (fromInt 250) \<and> nonNegative (fromInt 600)"
proof -
  have e: "estimateSinglePose (netOf example1) () False =
             Inr (Some \<lparr>keypoints = example1, poseScore = fromInt 1\<rparr>)"
    by (rule netOf_estimate)
  have f: "\<forall>k \<in> set (keypoints \<lparr>keypoints = example1, poseScore = fromInt 1\<rparr>).
             isFinite (x (position k)) \<and> isFinite (y (position k))"
    using example1_finite by simp
  from detectPose_components_nonneg [OF detectPose_netOf_example1] e f
  have "nonNegative (fromInt 300) \<and> nonNegative (fromInt 250) \<and> nonNegative (fromInt 600)"
    by fastforce
  with detectPose_netOf_example1 e example1_finite show ?thesis by blast
qed

text \<open>
  The claim as stated fails: for the pose whose leftShoulder has the \<open>x\<close> coordinate
  \<open>NaN\<close>, \<open>detectPose\<close> resolves to a \<open>Measurements\<close> record whose \<open>shoulderWidth\<close> is \<open>NaN\<close>,
  and \<open>NaN >= 0\<close> is false.
\<close>

theorem detectPose_components_nonneg_counterexample:
  "detectPose () (netOf exampleNaN) =
     Inr (MeasurementsR \<lparr>shoulderWidth = NaN, hipWidth = fromInt 0, height = fromInt 0\<rparr>) \<and>
   \<not> nonNegative
        (shoulderWidth \<lparr>shoulderWidth = NaN, hipWidth = fromInt 0, height = fromInt 0\<rparr>)"
  using detectPose_netOf_exampleNaN by simp

text \<open>
  Claim C9, as amended. For all positions \<open>a\<close> and \<open>b\<close>, \<open>calculateDistance a b\<close> and
  \<open>calculateDistance b a\<close> are the same value, \<open>NaN\<close> included. Under the equality
  \<open>===\<close> of JavaScript they compare equal exactly when that value is not \<open>NaN\<close>, and so
  whenever the four coordinates are finite numbers.
\<close>

theorem calculateDistance_symmetric:
  "calculateDistance a b = calculateDistance b a \<and>
   (strictEquals (calculateDistance a b) (calculateDistance b a) \<longleftrightarrow>
      calculateDistance a b \<noteq> NaN) \<and>
   (isFinite (x a) \<and> isFinite (y a) \<and> isFinite (x b) \<and> isFinite (y b) \<longrightarrow>
      strictEquals (calculateDistance a b) (calculateDistance b a))"
proof -
  have swap: "calculateDistance b a = calculateDistance a b"
    by (rule calculateDistance_swap)
  have "calculateDistance a b \<noteq> NaN"
    if "isFinite (x a)" "isFinite (y a)" "isFinite (x b)" "isFinite (y b)"
    using positiveSign_calculateDistance [OF that] by auto
  then show ?thesis
    by (auto simp: swap strictEquals_self)
qed

theorem calculateDistance_symmetric_witness:
  "isFinite (x \<lparr>x = fromInt 0, y = fromInt 0\<rparr>) \<and> isFinite (y \<lparr>x = fromInt 0, y = fromInt 0\<rparr>) \<and>
   isFinite (x \<lparr>x = fromInt 1, y = fromInt 1\<rparr>) \<and> isFinite (y \<lparr>x = fromInt 1, y = fromInt 1\<rparr>) \<and>
   calculateDistance \<lparr>x = fromInt 0, y = fromInt 0\<rparr> \<lparr>x = fromInt 1, y = fromInt 1\<rparr> =
     calculateDistance \<lparr>x = fromInt 1, y = fromInt 1\<rparr> \<lparr>x = fromInt 0, y = fromInt 0\<rparr> \<and>
   strictEquals
     (calculateDistance \<lparr>x = fromInt 0, y = fromInt 0\<rparr> \<lparr>x = fromInt 1, y = fromInt 1\<rparr>)
     (calculateDistance \<lparr>x = fromInt 1, y = fromInt 1\<rparr> \<lparr>x = fromInt 0, y = fromInt 0\<rparr>)"
proof -
  have f: "isFinite (x \<lparr>x = fromInt 0, y = fromInt 0\<rparr>)"
    "isFinite (y \<lparr>x = fromInt 0, y = fromInt 0\<rparr>)"
    "isFinite (x \<lparr>x = fromInt 1, y = fromInt 1\<rparr>)"
    "isFinite (y \<lparr>x = fromInt 1, y = fromInt 1\<rparr>)"
    by (simp_all add: isFinite_fromInt_small)
  from calculateDistance_symmetric
    [of "\<lparr>x = fromInt 0, y = fromInt 0\<rparr>" "\<lparr>x = fromInt 1, y = fromInt 1\<rparr>"] f
  show ?thesis by blast
qed

text \<open>
  The claim as stated fails under the equality of JavaScript: with a \<open>NaN\<close> coordinate
  both calls return \<open>NaN\<close>, and \<open>NaN === NaN\<close> is false.
\<close>

theorem calculateDistance_symmetric_counterexample:
  "\<not> strictEquals
        (calculateDistance \<lparr>x = NaN, y = fromInt 0\<rparr> \<lparr>x = fromInt 0, y = fromInt 0\<rparr>)
        (calculateDistance \<lparr>x = fromInt 0, y = fromInt 0\<rparr> \<lparr>x = NaN, y = fromInt 0\<rparr>)"
  by (simp add: distance_NaN distance_NaN_right)

text \<open>
  Claim C8. The result of \<open>detectPose\<close> is a function of the keypoint array alone: two
  invocations, on any video handles and estimators, whose estimators resolve to poses
  with the same keypoint array resolve to identical \<open>Measurements\<close> records.
\<close>

theorem detectPose_deterministic:
  assumes "estimateSinglePose net video False = Inr (Some pose)"
    and "estimateSinglePose net' video' False = Inr (Some pose')"
    and "keypoints pose = keypoints pose'"
  shows "detectPose video net = detectPose video' net' \<and>
         (\<exists>m. detectPose video net = Inr (MeasurementsR m))"
  by (simp add: detectPose_pose [OF assms(1)] detectPose_pose [OF assms(2)] assms(3))

theorem detectPose_deterministic_witness:
  "estimateSinglePose (netOf example1) () False =
     Inr (Some \<lparr>keypoints = example1, poseScore = fromInt 1\<rparr>) \<and>
   estimateSinglePose netOther (5::nat) False =
     Inr (Some \<lparr>keypoints = example1, poseScore = fromInt 0\<rparr>) \<and>
   keypoints \<lparr>keypoints = example1, poseScore = fromInt 1\<rparr> =
     keypoints \<lparr>keypoints = example1, poseScore = fromInt 0\<rparr> \<and>
   detectPose () (netOf example1) = detectPose (5::nat) netOther \<and>
   (\<exists>m. detectPose () (netOf example1) = Inr (MeasurementsR m))"
proof -
  have e: "estimateSinglePose (netOf example1) () False =
             Inr (Some \<lparr>keypoints = example1, poseScore = fromInt 1\<rparr>)"
    by (rule netOf_estimate)
  have e': "estimateSinglePose netOther (5::nat) False =
             Inr (Some \<lparr>keypoints = example1, poseScore = fromInt 0\<rparr>)"
    by (rule netOther_estimate)
  have k: "keypoints \<lparr>keypoints = example1, poseScore = fromInt 1\<rparr> =
             keypoints \<lparr>keypoints = example1, poseScore = fromInt 0\<rparr>"
    by simp
  from detectPose_deterministic [OF e e' k] e e' k show ?thesis by blast
qed

text \<open>
  Claim C10. For a keypoint array that holds an entry \<open>d\<close> after an earlier entry of the
  same part name (the array is \<open>xs @ d # ys\<close> with an entry of \<open>xs\<close> named as \<open>d\<close>):
  \<open>detectPose\<close> resolves to the same result as on the array \<open>xs @ ys\<close> without \<open>d\<close>, so
  the later duplicate does not affect the record; and each component is the distance
  between the positions of the first entries, in iteration order, of its two part
  names, whenever both names occur.
\<close>

theorem detectPose_first_match_wins:
  assumes est: "estimateSinglePose net video False = Inr (Some pose)"
    and dup: "keypoints pose = xs @ d # ys" "\<exists>k \<in> set xs. part k = part d"
    and est': "estimateSinglePose net' video' False = Inr (Some pose')"
    and without: "keypoints pose' = xs @ ys"
  shows "detectPose video net = detectPose video' net' \<and>
    (\<exists>m. detectPose video net = Inr (MeasurementsR m) \<and>
      (\<forall>i j. firstMatch ''leftShoulder'' (keypoints pose) i \<and>
              firstMatch ''rightShoulder'' (keypoints pose) j \<longrightarrow>
              shoulderWidth m =
                calculateDistance (position (keypoints pose ! i)) (position (keypoints pose ! j))) \<and>
      (\<forall>i j. firstMatch ''leftHip'' (keypoints pose) i \<and>
              firstMatch ''rightHip'' (keypoints pose) j \<longrightarrow>
              hipWidth m =
                calculateDistance (position (keypoints pose ! i)) (position (keypoints pose ! j))) \<and>
      (\<forall>i j. firstMatch ''nose'' (keypoints pose) i \<and>
              firstMatch ''leftAnkle'' (keypoints pose) j \<longrightarrow>
              height m =
                calculateDistance (position (keypoints pose ! i)) (position (keypoints pose ! j))))"
proof -
  have "detectPose video net = detectPose video' net'"
    by (simp add: detectPose_pose [OF est] detectPose_pose [OF est'] dup without
        lookupDistance_later_duplicate)
  moreover have "\<exists>m. detectPose video net = Inr (MeasurementsR m) \<and>
      (\<forall>i j. firstMatch ''leftShoulder'' (keypoints pose) i \<and>
              firstMatch ''rightShoulder'' (keypoints pose) j \<longrightarrow>
              shoulderWidth m =
                calculateDistance (position (keypoints pose ! i)) (position (keypoints pose ! j))) \<and>
      (\<forall>i j. firstMatch ''leftHip'' (keypoints pose) i \<and>
              firstMatch ''rightHip'' (keypoints pose) j \<longrightarrow>
              hipWidth m =
                calculateDistance (position (keypoints pose ! i)) (position (keypoints pose ! j))) \<and>
      (\<forall>i j. firstMatch ''nose'' (keypoints pose) i \<and>
              firstMatch ''leftAnkle'' (keypoints pose) j \<longrightarrow>
              height m =
                calculateDistance (position (keypoints pose ! i)) (position (keypoints pose ! j)))"
    by (simp add: detectPose_pose [OF est] lookupDistance_firstMatch)
  ultimately show ?thesis by (rule conjI)
qed

theorem detectPose_first_match_wins_witness:
  "estimateSinglePose (netOf example1_duplicate) () False =
     Inr (Some \<lparr>keypoints = example1_duplicate, poseScore = fromInt 1\<rparr>) \<and>
   example1_duplicate =
     [kp ''leftShoulder'' 0 0, kp ''rightShoulder'' 300 0] @ kp ''leftShoulder'' 7 9 #
     [kp ''leftHip'' 50 200, kp ''rightHip'' 300 200, kp ''nose'' 150 0,
      kp ''leftAnkle'' 150 600] \<and>
   (\<exists>k \<in> set [kp ''leftShoulder'' 0 0, kp ''rightShoulder'' 300 0].
      part k = part (kp ''leftShoulder'' 7 9)) \<and>
   estimateSinglePose (netOf example1) () False =
     Inr (Some \<lparr>keypoints = example1, poseScore = fromInt 1\<rparr>) \<and>
   example1 =
     [kp ''leftShoulder'' 0 0, kp ''rightShoulder'' 300 0] @
     [kp ''leftHip'' 50 200, kp ''rightHip'' 300 200, kp ''nose'' 150 0,
      kp ''leftAnkle'' 150 600] \<and>
   firstMatch ''leftShoulder'' example1_duplicate 0 \<and>
   firstMatch ''rightShoulder'' example1_duplicate 1 \<and>
   firstMatch ''leftHip'' example1_duplicate 3 \<and>
   firstMatch ''rightHip'' example1_duplicate 4 \<and>
   firstMatch ''nose'' example1_duplicate 5 \<and>
   firstMatch ''leftAnkle'' example1_duplicate 6 \<and>
   detectPose () (netOf example1_duplicate) = detectPose () (netOf example1) \<and>
   (\<exists>m. detectPose () (netOf example1_duplicate) = Inr (MeasurementsR m) \<and>
        shoulderWidth m = calculateDistance \<lparr>x = fromInt 0, y = fromInt 0\<rparr> \<lparr>x = fromInt 300, y = fromInt 0\<rparr> \<and>
        hipWidth m = calculateDistance \<lparr>x = fromInt 50, y = fromInt 200\<rparr>
          \<lparr>x = fromInt 300, y = fromInt 200\<rparr> \<and>
        height m = calculateDistance \<lparr>x = fromInt 150, y = fromInt 0\<rparr>
          \<lparr>x = fromInt 150, y = fromInt 600\<rparr>)"
proof -
  have e: "estimateSinglePose (netOf example1_duplicate) () False =
             Inr (Some \<lparr>keypoints = example1_duplicate, poseScore = fromInt 1\<rparr>)"
    by (rule netOf_estimate)
  have e': "estimateSinglePose (netOf example1) () False =
             Inr (Some \<lparr>keypoints = example1, poseScore = fromInt 1\<rparr>)"
    by (rule netOf_estimate)
  have d: "example1_duplicate =
     [kp ''leftShoulder'' 0 0, kp ''rightShoulder'' 300 0] @ kp ''leftShoulder'' 7 9 #
     [kp ''leftHip'' 50 200, kp ''rightHip'' 300 200, kp ''nose'' 150 0,
      kp ''leftAnkle'' 150 600]"
    by (simp add: example1_duplicate_def)
  have w: "example1 =
     [kp ''leftShoulder'' 0 0, kp ''rightShoulder'' 300 0] @
     [kp ''leftHip'' 50 200, kp ''rightHip'' 300 200, kp ''nose'' 150 0,
      kp ''leftAnkle'' 150 600]"
    by (simp add: example1_def)
  have p: "\<exists>k \<in> set [kp ''leftShoulder'' 0 0, kp ''rightShoulder'' 300 0].
      part k = part (kp ''leftShoulder'' 7 9)"
    by (simp add: kp_def)
  have f: "firstMatch ''leftShoulder'' example1_duplicate 0"
    "firstMatch ''rightShoulder'' example1_duplicate 1"
    "firstMatch ''leftHip'' example1_duplicate 3"
    "firstMatch ''rightHip'' example1_duplicate 4"
    "firstMatch ''nose'' example1_duplicate 5"
    "firstMatch ''leftAnkle'' example1_duplicate 6"
    by (simp_all add: firstMatch_def example1_duplicate_def kp_def lessThan_nat_numeral
        lessThan_Suc)
  have k: "keypoints \<lparr>keypoints = example1_duplicate, poseScore = fromInt 1\<rparr> =
      [kp ''leftShoulder'' 0 0, kp ''rightShoulder'' 300 0] @ kp ''leftShoulder'' 7 9 #
      [kp ''leftHip'' 50 200, kp ''rightHip'' 300 200, kp ''nose'' 150 0,
       kp ''leftAnkle'' 150 600]"
    using d by simp
  have k': "keypoints \<lparr>keypoints = example1, poseScore = fromInt 1\<rparr> =
      [kp ''leftShoulder'' 0 0, kp ''rightShoulder'' 300 0] @
      [kp ''leftHip'' 50 200, kp ''rightHip'' 300 200, kp ''nose'' 150 0,
       kp ''leftAnkle'' 150 600]"
    using w by simp
  note first = detectPose_first_match_wins [OF e k p e' k', unfolded Pose.select_convs]
  from first
  have eq: "detectPose () (netOf example1_duplicate) = detectPose () (netOf example1)"
    by (rule conjunct1)
  from first
  have "\<exists>m. detectPose () (netOf example1_duplicate) = Inr (MeasurementsR m) \<and>
      (\<forall>i j. firstMatch ''leftShoulder'' example1_duplicate i \<and>
              firstMatch ''rightShoulder'' example1_duplicate j \<longrightarrow>
              shoulderWidth m =
                calculateDistance (position (example1_duplicate ! i))
                  (position (example1_duplicate ! j))) \<and>
      (\<forall>i j. firstMatch ''leftHip'' example1_duplicate i \<and>
              firstMatch ''rightHip'' example1_duplicate j \<longrightarrow>
              hipWidth m =
                calculateDistance (position (example1_duplicate ! i))
                  (position (example1_duplicate ! j))) \<and>
      (\<forall>i j. firstMatch ''nose'' example1_duplicate i \<and>
              firstMatch ''leftAnkle'' example1_duplicate j \<longrightarrow>
              height m =
                calculateDistance (position (example1_duplicate ! i))
                  (position (example1_duplicate ! j)))"
    by (rule conjunct2)
  then obtain m where
    m: "detectPose () (netOf example1_duplicate) = Inr (MeasurementsR m)"
    and s: "\<forall>i j. firstMatch ''leftShoulder'' example1_duplicate i \<and>
              firstMatch ''rightShoulder'' example1_duplicate j \<longrightarrow>
              shoulderWidth m =
                calculateDistance (position (example1_duplicate ! i))
                  (position (example1_duplicate ! j))"
    and h: "\<forall>i j. firstMatch ''leftHip'' example1_duplicate i \<and>
              firstMatch ''rightHip'' example1_duplicate j \<longrightarrow>
              hipWidth m =
                calculateDistance (position (example1_duplicate ! i))
                  (position (example1_duplicate ! j))"
    and t: "\<forall>i j. firstMatch ''nose'' example1_duplicate i \<and>
              firstMatch ''leftAnkle'' example1_duplicate j \<longrightarrow>
              height m =
                calculateDistance (position (example1_duplicate ! i))
                  (position (example1_duplicate ! j))"
    by blast
  have "shoulderWidth m = calculateDistance \<lparr>x = fromInt 0, y = fromInt 0\<rparr> \<lparr>x = fromInt 300, y = fromInt 0\<rparr>"
    using s f(1,2) by (fastforce simp: example1_duplicate_def kp_def)
  moreover have "hipWidth m = calculateDistance \<lparr>x = fromInt 50, y = fromInt 200\<rparr>
          \<lparr>x = fromInt 300, y = fromInt 200\<rparr>"
    using h f(3,4) by (fastforce simp: example1_duplicate_def kp_def)
  moreover have "height m = calculateDistance \<lparr>x = fromInt 150, y = fromInt 0\<rparr>
          \<lparr>x = fromInt 150, y = fromInt 600\<rparr>"
    using t f(5,6) by (fastforce simp: example1_duplicate_def kp_def)
  ultimately show ?thesis using e d p e' w f eq m by blast
qed

section \<open>Failures\<close>

text \<open>
  Claim C3. When the estimator resolves to no pose, \<open>detectPose\<close> resolves to the
  \<open>ErrorResult\<close> with \<open>success\<close> false and the message
  \<open>Pose estimation failed. Could not detect key points.\<close>, and to no \<open>Measurements\<close>
  record.
\<close>

theorem detectPose_detection_failed:
  assumes "estimateSinglePose net video False = Inr None"
  shows "detectPose video net =
           Inr (ErrorR \<lparr>success = False,
                        message = ''Pose estimation failed. Could not detect key points.''\<rparr>) \<and>
         (\<forall>m. detectPose video net \<noteq> Inr (MeasurementsR m))"
  by (simp add: detectPose_no_pose [OF assms])

theorem detectPose_detection_failed_witness:
  "estimateSinglePose netNoPose () False = Inr None \<and>
   detectPose () netNoPose =
     Inr (ErrorR \<lparr>success = False,
                  message = ''Pose estimation failed. Could not detect key points.''\<rparr>) \<and>
   (\<forall>m. detectPose () netNoPose \<noteq> Inr (MeasurementsR m))"
proof -
  have e: "estimateSinglePose netNoPose () False = Inr None"
    by (simp add: netNoPose_def)
  show ?thesis using e detectPose_detection_failed [OF e] by simp
qed

text \<open>
  Claim C5. Every invocation of \<open>detectPose\<close> resolves to a value that is exactly one of
  a \<open>Measurements\<close> record and an \<open>ErrorResult\<close>, never both; an \<open>ErrorResult\<close> it
  returns has \<open>success\<close> false, and the caller's test
  \<open>'success' in result && !result.success\<close> holds exactly for the \<open>ErrorResult\<close> variant
  and fails exactly for the \<open>Measurements\<close> variant.
\<close>

theorem detectPose_outcome_variants:
  "\<exists>r. detectPose video net = Inr r \<and>
     ((\<exists>m. r = MeasurementsR m) \<noteq> (\<exists>e. r = ErrorR e)) \<and>
     (\<forall>e. r = ErrorR e \<longrightarrow> success e = False) \<and>
     (isError r \<longleftrightarrow> (\<exists>e. r = ErrorR e)) \<and>
     (\<not> isError r \<longleftrightarrow> (\<exists>m. r = MeasurementsR m))"
proof (cases "estimateSinglePose net video False")
  case (Inl e)
  then show ?thesis by (simp add: detectPose_throws isError_def)
next
  case (Inr p)
  show ?thesis
  proof (cases p)
    case None
    with Inr show ?thesis by (simp add: detectPose_no_pose isError_def)
  next
    case (Some pose)
    with Inr have "estimateSinglePose net video False = Inr (Some pose)" by simp
    then show ?thesis by (simp add: detectPose_pose isError_def)
  qed
qed

theorem detectPose_outcome_variants_witness:
  "(\<exists>e. detectPose () netNoPose = Inr (ErrorR e) \<and> success e = False \<and>
        isError (ErrorR e)) \<and>
   (\<exists>m. detectPose () (netOf example1) = Inr (MeasurementsR m) \<and>
        \<not> isError (MeasurementsR m))"
proof -
  have n: "detectPose () netNoPose =
             Inr (ErrorR \<lparr>success = False,
                          message = ''Pose estimation failed. Could not detect key points.''\<rparr>)"
    by (simp add: detectPose_no_pose netNoPose_def)
  from detectPose_outcome_variants [of "()" netNoPose] n
  have 1: "\<exists>e. detectPose () netNoPose = Inr (ErrorR e) \<and> success e = False \<and>
        isError (ErrorR e)"
    by auto
  from detectPose_outcome_variants [of "()" "netOf example1"] detectPose_netOf_example1
  have 2: "\<exists>m. detectPose () (netOf example1) = Inr (MeasurementsR m) \<and>
        \<not> isError (MeasurementsR m)"
    by auto
  from 1 2 show ?thesis by (rule conjI)
qed

text \<open>
  Claim C6. \<open>detectPose\<close> never rejects: for every video handle and estimator it
  resolves to a value. When the estimator throws, that value is the \<open>ErrorResult\<close> with
  \<open>success\<close> false and the message of the \<open>catch\<close> clause; when the estimator finds no
  pose, it is the \<open>ErrorResult\<close> with \<open>success\<close> false and the message of the \<open>else\<close>
  branch.
\<close>

theorem detectPose_never_rejects:
  "(\<exists>r. detectPose video net = Inr r) \<and>
   (\<forall>e. estimateSinglePose net video False = Inl e \<longrightarrow>
      detectPose video net =
        Inr (ErrorR \<lparr>success = False,
                     message = ''An error occurred during pose detection. Please try again.''\<rparr>)) \<and>
   (estimateSinglePose net video False = Inr None \<longrightarrow>
      detectPose video net =
        Inr (ErrorR \<lparr>success = False,
                     message = ''Pose estimation failed. Could not detect key points.''\<rparr>))"
proof (cases "estimateSinglePose net video False")
  case (Inl e)
  then show ?thesis by (simp add: detectPose_throws)
next
  case (Inr p)
  show ?thesis
  proof (cases p)
    case None
    with Inr show ?thesis by (simp add: detectPose_no_pose)
  next
    case (Some pose)
    with Inr have "estimateSinglePose net video False = Inr (Some pose)" by simp
    then show ?thesis by (simp add: detectPose_pose)
  qed
qed

theorem detectPose_never_rejects_witness:
  "estimateSinglePose netThrows () False = Inl Thrown \<and>
   detectPose () netThrows =
     Inr (ErrorR \<lparr>success = False,
                  message = ''An error occurred during pose detection. Please try again.''\<rparr>) \<and>
   estimateSinglePose netNoPose () False = Inr None \<and>
   detectPose () netNoPose =
     Inr (ErrorR \<lparr>success = False,
                  message = ''Pose estimation failed. Could not detect key points.''\<rparr>)"
proof -
  have t: "estimateSinglePose netThrows () False = Inl Thrown"
    by (simp add: netThrows_def)
  have n: "estimateSinglePose netNoPose () False = Inr None"
    by (simp add: netNoPose_def)
  from detectPose_never_rejects [of "()" netThrows] t
  have 1: "detectPose () netThrows =
     Inr (ErrorR \<lparr>success = False,
                  message = ''An error occurred during pose detection. Please try again.''\<rparr>)"
    by blast
  from detectPose_never_rejects [of "()" netNoPose] n
  have 2: "detectPose () netNoPose =
     Inr (ErrorR \<lparr>success = False,
                  message = ''Pose estimation failed. Could not detect key points.''\<rparr>)"
    by blast
  from t 1 n 2 show ?thesis by blast
qed

end
